theory Spec2Isabelle
  imports Main "HOL-Library.FSet"
begin

section \<open>Constants of main.go\<close>

text \<open>
  The \<^verbatim>\<open>const\<close> block of main.go (lines 16-23). The port and the two reporter
  intervals play no part in the connection handling and are left out.
\<close>

definition connLimit :: nat where
  "connLimit = 6"

definition validLen :: nat where
  "validLen = 10"

definition minValue :: int where
  "minValue = 1000000"

definition newline :: char where
  "newline = CHR 0x0A"

section \<open>The Go library functions the handler calls\<close>

subsection \<open>Errors\<close>

text \<open>
  A Go \<^verbatim>\<open>error\<close> value as the handler tells them apart: \<^verbatim>\<open>io.EOF\<close>, or any other
  error, kept with the text that \<^verbatim>\<open>%v\<close> prints for it. A nil error is \<open>None\<close>.
\<close>

datatype GoError = EOF | OtherError string

fun errorText :: "GoError \<Rightarrow> string" where
  "errorText EOF = ''EOF''"
| "errorText (OtherError msg) = msg"

subsection \<open>fmt: the verb \<^verbatim>\<open>%d\<close>\<close>

definition digitTable :: string where
  "digitTable = ''0123456789''"

fun formatDigits :: "nat \<Rightarrow> string" where
  "formatDigits n =
     (if n < 10 then [digitTable ! n]
      else formatDigits (n div 10) @ [digitTable ! (n mod 10)])"

declare formatDigits.simps [simp del]

definition formatInt :: "int \<Rightarrow> string" where
  "formatInt i = (if i < 0 then CHR ''-'' # formatDigits (nat (- i)) else formatDigits (nat i))"

subsection \<open>strconv.Atoi\<close>

text \<open>
  \<^verbatim>\<open>strconv.Atoi(s)\<close> is \<^verbatim>\<open>ParseInt(s, 10, 0)\<close> converted to \<^verbatim>\<open>int\<close>, here the 64-bit
  \<^verbatim>\<open>int\<close>: an optional sign, then one or more decimal digits and nothing else (base 10
  admits no underscore, no space and no line terminator); a magnitude that does not fit
  is a range error, met at the digit where it stops fitting.
\<close>

datatype NumError = ErrSyntax | ErrRange

definition isDigit :: "char \<Rightarrow> bool" where
  "isDigit ch = (48 \<le> (of_char ch :: nat) \<and> (of_char ch :: nat) \<le> 57)"

definition digitVal :: "char \<Rightarrow> nat" where
  "digitVal ch = (of_char ch :: nat) - 48"

definition maxUint64 :: nat where
  "maxUint64 = 18446744073709551615"

definition maxInt64 :: nat where
  "maxInt64 = 9223372036854775807"

fun parseUintLoop :: "string \<Rightarrow> nat \<Rightarrow> NumError + nat" where
  "parseUintLoop [] n = Inr n"
| "parseUintLoop (ch # cs) n =
     (if \<not> isDigit ch then Inl ErrSyntax
      else if maxUint64 < n * 10 + digitVal ch then Inl ErrRange
      else parseUintLoop cs (n * 10 + digitVal ch))"

definition ParseUint :: "string \<Rightarrow> NumError + nat" where
  "ParseUint s = (if s = [] then Inl ErrSyntax else parseUintLoop s 0)"

definition Atoi :: "string \<Rightarrow> NumError + int" where
  "Atoi s =
     (case s of
        [] \<Rightarrow> Inl ErrSyntax
      | ch # cs \<Rightarrow>
          (let neg = (ch = CHR ''-'');
               body = (if ch = CHR ''+'' \<or> ch = CHR ''-'' then cs else s)
           in case ParseUint body of
                Inl e \<Rightarrow> Inl e
              | Inr un \<Rightarrow>
                  if \<not> neg \<and> maxInt64 < un then Inl ErrRange
                  else if neg \<and> maxInt64 + 1 < un then Inl ErrRange
                  else Inr (if neg then - int un else int un)))"

subsection \<open>The connection and bufio's ReadString\<close>

text \<open>
  What the peer does on a connection: the bytes it sends, and what a read finds once they
  are used up: the peer has closed its side (\<^verbatim>\<open>io.EOF\<close>), the read fails with some
  other error, or the connection stays open and silent, so that the read never returns.
\<close>

datatype StreamEnd = PeerClosed | ReadFails string | StaysOpen

record Conn =
  incoming :: string
  ending :: StreamEnd

text \<open>The bytes up to and including the first delimiter, when there is one.\<close>

fun upToDelim :: "char \<Rightarrow> string \<Rightarrow> string option" where
  "upToDelim d [] = None"
| "upToDelim d (ch # cs) =
     (if ch = d then Some [ch] else map_option ((#) ch) (upToDelim d cs))"

text \<open>
  \<^verbatim>\<open>bufio.Reader.ReadString(delim)\<close> on a fresh reader: the line with its delimiter and a
  nil error, or else everything read before the stream ended, with the error that ended
  it. \<open>None\<close> is the call that never returns.
\<close>

definition ReadString :: "char \<Rightarrow> Conn \<Rightarrow> (string \<times> GoError option) option" where
  "ReadString d conn =
     (case upToDelim d (incoming conn) of
        Some line \<Rightarrow> Some (line, None)
      | None \<Rightarrow>
          (case ending conn of
             PeerClosed \<Rightarrow> Some (incoming conn, Some EOF)
           | ReadFails msg \<Rightarrow> Some (incoming conn, Some (OtherError msg))
           | StaysOpen \<Rightarrow> None))"

section \<open>The shared counter\<close>

text \<open>
  Modelled from the spec: the type \<^verbatim>\<open>Counter\<close>, its constructor \<^verbatim>\<open>NewCounter\<close> and its
  methods \<^verbatim>\<open>Inc\<close>, \<^verbatim>\<open>HasValue\<close> and \<^verbatim>\<open>RecordUniq\<close> are called by main.go and declared in
  a file that is not part of the sources. The record follows sections 3 and 4.1 of the
  specification: the admission gate (main.go uses it as the channel \<^verbatim>\<open>counter.Sem\<close>, here
  the queue of values the channel buffers, with its capacity), the two running totals, the
  dedup set, and the log of unique values.
\<close>

record Counter =
  Sem :: "int list"
  SemCap :: nat
  totalValid :: nat
  intervalValid :: nat
  seen :: "int fset"
  uniqLog :: "int list"

text \<open>
  Modelled from the spec: \<^verbatim>\<open>NewCounter\<close> is missing; the gate is "created once at startup
  with the capacity", every token free, the totals zero and the dedup set empty.
\<close>

definition NewCounter :: "nat \<Rightarrow> Counter" where
  "NewCounter limit =
     \<lparr>Sem = [], SemCap = limit, totalValid = 0, intervalValid = 0, seen = {||}, uniqLog = []\<rparr>"

text \<open>
  Modelled from the spec: \<^verbatim>\<open>Inc\<close> is missing; the specification's RecordValid "increments
  totalValid and intervalValid by one".
\<close>

definition Inc :: "Counter \<Rightarrow> Counter" where
  "Inc c = c\<lparr>totalValid := totalValid c + 1, intervalValid := intervalValid c + 1\<rparr>"

text \<open>
  Modelled from the spec: \<^verbatim>\<open>HasValue\<close> is missing; the specification's HasSeen "reports
  whether value is already in DedupSet".
\<close>

definition HasValue :: "int \<Rightarrow> Counter \<Rightarrow> bool" where
  "HasValue v c = (v |\<in>| seen c)"

text \<open>
  Modelled from the spec: \<^verbatim>\<open>RecordUniq\<close> is missing; the specification's RecordUnique
  "atomically checks membership and inserts if absent", is a no-op without error on a
  value already present, and "surfaces an error only if a required side-effect (e.g.,
  durable log append) fails". Whether the append succeeds is the environment's choice,
  the argument \<open>appendErr\<close>. The specification does not say what the set holds after a
  failed append; the model leaves the counter as it was.
\<close>

definition RecordUniq :: "int \<Rightarrow> GoError option \<Rightarrow> Counter \<Rightarrow> GoError option \<times> Counter" where
  "RecordUniq v appendErr c =
     (if v |\<in>| seen c then (None, c)
      else case appendErr of
             Some e \<Rightarrow> (Some e, c)
           | None \<Rightarrow> (None, c\<lparr>seen := finsert v (seen c), uniqLog := uniqLog c @ [v]\<rparr>))"

section \<open>handleConnection\<close>

text \<open>
  How a call of \<^verbatim>\<open>handleConnection\<close> ends: it returns; or \<^verbatim>\<open>log.Fatalf\<close> prints the
  message and calls \<^verbatim>\<open>os.Exit(1)\<close>, which ends the process at once, deferred functions
  not run; or it waits for ever, in the read or in the receive from the gate.
\<close>

datatype Exit = Returned | Fatal string | Blocked

record Outcome =
  exit :: Exit
  written :: string
  connClosed :: bool
  counter :: Counter

text \<open>
  The body of \<^verbatim>\<open>handleConnection\<close> after the read, for the line \<open>s\<close> and the error
  \<open>err\<close> that ReadString gave. Handlers are goroutines (\<^verbatim>\<open>go handleConnection\<close>, line 53),
  and the body meets the counter's dedup set twice, at \<^verbatim>\<open>HasValue\<close> (line 141) and at
  \<^verbatim>\<open>RecordUniq\<close> (line 147), with other handlers free to run in between. So the body is
  two parts. The first, lines 108-143, either ends the body or leaves it standing before
  the call of \<^verbatim>\<open>RecordUniq\<close>, with the number, what has been written so far, and the
  counter as \<^verbatim>\<open>Inc\<close> left it.
\<close>

datatype Progress = Finished Outcome | AtRecordUniq int string Counter

definition handleChecks :: "string \<Rightarrow> GoError option \<Rightarrow> Counter \<Rightarrow> Progress" where
  "handleChecks s err c =
     (case err of
        Some (OtherError msg) \<Rightarrow>
          Finished
            \<lparr>exit = Fatal (''Error reading: '' @ msg), written = [], connClosed = False,
             counter = c\<rparr>
      | _ \<Rightarrow>
          if length s \<noteq> validLen then
            Finished
              \<lparr>exit = Returned,
               written = ''ERR Malformed Request: expected length '' @ formatInt (int validLen)
                         @ '', got '' @ formatInt (int (length s)) @ ''.'' @ [newline],
               connClosed = False, counter = c\<rparr>
          else
            (case Atoi s of
               Inl e \<Rightarrow>
                 Finished
                   \<lparr>exit = Returned,
                    written = ''ERR Malformed Request: expected number'' @ [newline],
                    connClosed = False, counter = c\<rparr>
             | Inr num \<Rightarrow>
                 if num < minValue then
                   Finished
                     \<lparr>exit = Returned,
                      written = ''ERR Malformed Request: expected number greater than ''
                                @ formatInt minValue @ [newline],
                      connClosed = False, counter = c\<rparr>
                 else
                   (let c1 = Inc c; echo = formatInt num @ [newline]
                    in if HasValue num c1 then
                         Finished
                           \<lparr>exit = Returned, written = echo, connClosed = False, counter = c1\<rparr>
                       else AtRecordUniq num echo c1)))"

text \<open>
  The second part, lines 147-149: the call of \<^verbatim>\<open>RecordUniq\<close> on the counter as it is by
  then, fatal when it returns an error. \<open>appendErr\<close> is the result the log append inside
  \<^verbatim>\<open>RecordUniq\<close> would have.
\<close>

definition handleRecord :: "int \<Rightarrow> string \<Rightarrow> GoError option \<Rightarrow> Counter \<Rightarrow> Outcome" where
  "handleRecord num echo appendErr c =
     (case RecordUniq num appendErr c of
        (Some e, c2) \<Rightarrow>
          \<lparr>exit = Fatal (''could not log unique value: '' @ errorText e @ [newline]),
           written = echo, connClosed = False, counter = c2\<rparr>
      | (None, c2) \<Rightarrow>
          \<lparr>exit = Returned, written = echo, connClosed = False, counter = c2\<rparr>)"

text \<open>The whole body (lines 108-149), when no other handler runs between its two parts.\<close>

definition handleLine :: "string \<Rightarrow> GoError option \<Rightarrow> GoError option \<Rightarrow> Counter \<Rightarrow> Outcome" where
  "handleLine s err appendErr c =
     (case handleChecks s err c of
        Finished out \<Rightarrow> out
      | AtRecordUniq num echo c1 \<Rightarrow> handleRecord num echo appendErr c1)"

text \<open>
  The deferred closure (lines 96-104), run when the body returns: close the connection,
  then receive one value from \<^verbatim>\<open>counter.Sem\<close>. A receive from an empty channel waits.
\<close>

definition deferredClose :: "Outcome \<Rightarrow> Outcome" where
  "deferredClose out =
     (case Sem (counter out) of
        [] \<Rightarrow> out\<lparr>exit := Blocked, connClosed := True\<rparr>
      | tok # rest \<Rightarrow> out\<lparr>connClosed := True, counter := (counter out)\<lparr>Sem := rest\<rparr>\<rparr>)"

definition handleConnection :: "Conn \<Rightarrow> GoError option \<Rightarrow> Counter \<Rightarrow> Outcome" where
  "handleConnection conn appendErr c =
     (case ReadString newline conn of
        None \<Rightarrow> \<lparr>exit = Blocked, written = [], connClosed = False, counter = c\<rparr>
      | Some (s, err) \<Rightarrow>
          (let out = handleLine s err appendErr c
           in case exit out of
                Returned \<Rightarrow> deferredClose out
              | _ \<Rightarrow> out))"

text \<open>The exits that end the whole process.\<close>

fun isFatal :: "Exit \<Rightarrow> bool" where
  "isFatal (Fatal msg) = True"
| "isFatal Returned = False"
| "isFatal Blocked = False"

section \<open>The accept loop and the goroutines of main\<close>

text \<open>
  The process as a state machine. \<^verbatim>\<open>acceptConns\<close> (lines 65-87) is one goroutine: after
  a successful non-blocking send on \<^verbatim>\<open>counter.Sem\<close> it waits in \<^verbatim>\<open>conns <- conn\<close>
  (\<open>handoff\<close>) until the loop of \<^verbatim>\<open>main\<close> receives the connection and starts
  \<^verbatim>\<open>go handleConnection\<close> (\<open>handling\<close>). A connection that finds the channel full is
  written the busy text and closed (\<open>turnedAway\<close>). \<open>halted\<close> is the process after
  \<^verbatim>\<open>os.Exit\<close>.
\<close>

record Server =
  shared :: Counter
  handoff :: "Conn option"
  handling :: "Conn list"
  turnedAway :: "(Conn \<times> string) list"
  halted :: bool

text \<open>\<^verbatim>\<open>main\<close>, lines 37 and 48: a new counter of capacity \<^verbatim>\<open>connLimit\<close>, nothing accepted.\<close>

definition NewServer :: Server where
  "NewServer =
     \<lparr>shared = NewCounter connLimit, handoff = None, handling = [], turnedAway = [],
      halted = False\<rparr>"

text \<open>
  One scheduling event: \<^verbatim>\<open>srv.Accept\<close> returns a connection or an error; \<^verbatim>\<open>main\<close>
  receives from \<^verbatim>\<open>conns\<close> and starts the handler; the \<open>i\<close>-th running handler runs to
  its end, the log append meeting \<open>appendErr\<close>; a termination signal arrives.
\<close>

datatype Event =
    Accept Conn
  | AcceptFails
  | Dispatch
  | Finish nat "GoError option"
  | Signal

text \<open>
  An event that cannot happen in a state (an accept while the accept goroutine waits in
  the hand-off, a handler still waiting, anything after the exit) leaves it as it is.
  A handler is one step: of all it does only the final receive touches the gate.
\<close>

definition step :: "Event \<Rightarrow> Server \<Rightarrow> Server" where
  "step ev sv =
     (if halted sv then sv
      else case ev of
        AcceptFails \<Rightarrow> sv
      | Accept conn \<Rightarrow>
          (case handoff sv of
             Some waiting \<Rightarrow> sv
           | None \<Rightarrow>
               if length (Sem (shared sv)) < SemCap (shared sv) then
                 sv\<lparr>shared := (shared sv)\<lparr>Sem := Sem (shared sv) @ [1]\<rparr>, handoff := Some conn\<rparr>
               else
                 sv\<lparr>turnedAway := turnedAway sv @ [(conn, ''Server busy.'')]\<rparr>)
      | Dispatch \<Rightarrow>
          (case handoff sv of
             None \<Rightarrow> sv
           | Some conn \<Rightarrow> sv\<lparr>handoff := None, handling := handling sv @ [conn]\<rparr>)
      | Finish i appendErr \<Rightarrow>
          if i < length (handling sv) then
            (let out = handleConnection (handling sv ! i) appendErr (shared sv)
             in case exit out of
                  Returned \<Rightarrow>
                    sv\<lparr>shared := counter out,
                       handling := take i (handling sv) @ drop (Suc i) (handling sv)\<rparr>
                | Fatal msg \<Rightarrow> sv\<lparr>shared := counter out, halted := True\<rparr>
                | Blocked \<Rightarrow> sv)
          else sv
      | Signal \<Rightarrow> sv\<lparr>halted := True\<rparr>)"

fun run :: "Event list \<Rightarrow> Server \<Rightarrow> Server" where
  "run [] sv = sv"
| "run (ev # evs) sv = run evs (step ev sv)"

text \<open>The tokens held: by the connection in the hand-off and by the running handlers.\<close>

definition holders :: "Server \<Rightarrow> nat" where
  "holders sv = (case handoff sv of None \<Rightarrow> 0 | Some conn \<Rightarrow> 1) + length (handling sv)"

section \<open>Decimal numerals\<close>

text \<open>
  The number a string of decimal digits denotes, by position. It is what the specification
  calls the value of a request; \<open>parseUintLoop\<close> and \<open>formatDigits\<close> are measured
  against it.
\<close>

fun decimalValue :: "string \<Rightarrow> nat" where
  "decimalValue [] = 0"
| "decimalValue (ch # cs) = digitVal ch * 10 ^ length cs + decimalValue cs"

section \<open>Facts about the library functions\<close>

lemma digitVal_table: "k < 10 \<Longrightarrow> digitVal (digitTable ! k) = k"
proof -
  assume "k < 10"
  then have "k = 0 \<or> k = 1 \<or> k = 2 \<or> k = 3 \<or> k = 4 \<or> k = 5 \<or> k = 6 \<or> k = 7 \<or> k = 8 \<or> k = 9"
    by arith
  then show ?thesis
    by (elim disjE) (simp_all add: digitVal_def digitTable_def)
qed

lemma isDigit_table: "k < 10 \<Longrightarrow> isDigit (digitTable ! k)"
proof -
  assume "k < 10"
  then have "k = 0 \<or> k = 1 \<or> k = 2 \<or> k = 3 \<or> k = 4 \<or> k = 5 \<or> k = 6 \<or> k = 7 \<or> k = 8 \<or> k = 9"
    by arith
  then show ?thesis
    by (elim disjE) (simp_all add: isDigit_def digitTable_def)
qed


text \<open>
  \<open>formatDigits\<close> writes the decimal numeral of its argument: digits only, denoting the
  argument.
\<close>

lemma decimalValue_snoc: "decimalValue (cs @ [ch]) = decimalValue cs * 10 + digitVal ch"
  by (induction cs) (simp_all add: algebra_simps)

lemma formatDigits_digits: "list_all isDigit (formatDigits n)"
proof (induction n rule: formatDigits.induct)
  case (1 n)
  show ?case
  proof (cases "n < 10")
    case True
    then show ?thesis by (simp add: formatDigits.simps [of n] isDigit_table)
  next
    case False
    with 1 show ?thesis by (simp add: formatDigits.simps [of n] isDigit_table)
  qed
qed

lemma formatDigits_value: "decimalValue (formatDigits n) = n"
proof (induction n rule: formatDigits.induct)
  case (1 n)
  show ?case
  proof (cases "n < 10")
    case True
    then show ?thesis by (simp add: formatDigits.simps [of n] digitVal_table)
  next
    case False
    with 1 show ?thesis by (simp add: formatDigits.simps [of n] decimalValue_snoc digitVal_table)
  qed
qed

text \<open>
  On a non-empty string of at most 18 digits \<^verbatim>\<open>strconv.Atoi\<close> succeeds with the number the
  digits denote; on a string whose last byte is not a digit it fails.
\<close>

lemma digitVal_bound: "isDigit ch \<Longrightarrow> digitVal ch \<le> 9"
  unfolding isDigit_def digitVal_def by arith

lemma decimalValue_bound: "list_all isDigit s \<Longrightarrow> decimalValue s < 10 ^ length s"
proof (induction s)
  case Nil
  then show ?case by simp
next
  case (Cons ch cs)
  define p :: nat where "p = 10 ^ length cs"
  from Cons have "digitVal ch \<le> 9" and rest: "decimalValue cs < p"
    by (simp_all add: digitVal_bound p_def)
  then have "digitVal ch * p \<le> 9 * p"
    by simp
  moreover have "decimalValue (ch # cs) = digitVal ch * p + decimalValue cs"
    and "(10::nat) ^ length (ch # cs) = 10 * p"
    by (simp_all add: p_def)
  ultimately show ?case using rest by linarith
qed

lemma parseUintLoop_digits:
  "list_all isDigit s \<Longrightarrow> n * 10 ^ length s + decimalValue s \<le> maxUint64 \<Longrightarrow>
   parseUintLoop s n = Inr (n * 10 ^ length s + decimalValue s)"
proof (induction s arbitrary: n)
  case Nil
  then show ?case by simp
next
  case (Cons ch cs)
  have bound: "(n * 10 + digitVal ch) * 10 ^ length cs + decimalValue cs \<le> maxUint64"
    using Cons.prems(2) by (simp add: algebra_simps)
  define x where "x = n * 10 + digitVal ch"
  have "x \<le> x * 10 ^ length cs" by simp
  then have "x \<le> x * 10 ^ length cs + decimalValue cs" by (rule trans_le_add1)
  then have "n * 10 + digitVal ch \<le> maxUint64" using bound unfolding x_def by (rule order_trans)
  moreover have "parseUintLoop cs (n * 10 + digitVal ch)
      = Inr ((n * 10 + digitVal ch) * 10 ^ length cs + decimalValue cs)"
    using Cons.IH [of "n * 10 + digitVal ch"] Cons.prems(1) bound by simp
  ultimately show ?case using Cons.prems(1) by (simp add: algebra_simps)
qed

lemma Atoi_digits:
  assumes "list_all isDigit s" and "s \<noteq> []" and "length s \<le> 18"
  shows "Atoi s = Inr (int (decimalValue s))"
proof -
  have "decimalValue s < 10 ^ length s" using assms(1) by (rule decimalValue_bound)
  also have "(10::nat) ^ length s \<le> 10 ^ 18" using assms(3) by (intro power_increasing) simp_all
  finally have small: "decimalValue s < 10 ^ 18" .
  then have "0 * 10 ^ length s + decimalValue s \<le> maxUint64" by (simp add: maxUint64_def)
  then have loop: "parseUintLoop s 0 = Inr (decimalValue s)"
    using parseUintLoop_digits [OF assms(1), of 0] by simp
  obtain ch cs where s: "s = ch # cs" using assms(2) by (cases s) auto
  have "isDigit ch" using assms(1) s by simp
  then have nosign: "ch \<noteq> CHR ''+''" "ch \<noteq> CHR ''-''" by (auto simp: isDigit_def)
  have "\<not> maxInt64 < decimalValue s" using small by (simp add: maxInt64_def)
  then show ?thesis using loop nosign s by (simp add: Atoi_def ParseUint_def)
qed

lemma upToDelim_ends: "upToDelim d s = Some line \<Longrightarrow> \<exists>body. line = body @ [d]"
proof (induction s arbitrary: line)
  case Nil
  then show ?case by simp
next
  case (Cons ch cs)
  then show ?case by (auto split: if_splits)
qed

lemma upToDelim_none: "d \<notin> set s \<Longrightarrow> upToDelim d s = None"
  by (induction s) auto

lemma parseUintLoop_nondigit: "\<not> list_all isDigit s \<Longrightarrow> \<exists>e. parseUintLoop s n = Inl e"
  by (induction s arbitrary: n) auto

lemma Atoi_nondigit_last:
  assumes "\<not> isDigit d"
  shows "\<exists>e. Atoi (body @ [d]) = Inl e"
proof (cases body)
  case Nil
  then show ?thesis using assms by (auto simp: Atoi_def ParseUint_def Let_def)
next
  case (Cons ch cs)
  have "\<not> list_all isDigit (cs @ [d])" "\<not> list_all isDigit (ch # cs @ [d])" using assms by simp_all
  then obtain e1 e2 where "parseUintLoop (cs @ [d]) 0 = Inl e1" "parseUintLoop (ch # cs @ [d]) 0 = Inl e2"
    using parseUintLoop_nondigit by blast
  then show ?thesis using Cons by (auto simp: Atoi_def ParseUint_def Let_def)
qed

section \<open>The paths of handleConnection\<close>

lemma formatInt_nat: "formatInt (int n) = formatDigits n"
  by (simp add: formatInt_def)

lemma formatDigits_validLen: "formatDigits validLen = ''10''"
  by (simp add: validLen_def formatDigits.simps digitTable_def)

lemma formatInt_minValue: "formatInt minValue = ''1000000''"
  by (simp add: formatInt_def minValue_def formatDigits.simps digitTable_def)

text \<open>The body in one piece, branch by branch as main.go has it.\<close>

lemma handleLine_body:
  "handleLine s err appendErr c =
     (case err of
        Some (OtherError msg) \<Rightarrow>
          \<lparr>exit = Fatal (''Error reading: '' @ msg), written = [], connClosed = False, counter = c\<rparr>
      | _ \<Rightarrow>
          if length s \<noteq> validLen then
            \<lparr>exit = Returned,
             written = ''ERR Malformed Request: expected length '' @ formatInt (int validLen)
                       @ '', got '' @ formatInt (int (length s)) @ ''.'' @ [newline],
             connClosed = False, counter = c\<rparr>
          else
            (case Atoi s of
               Inl e \<Rightarrow>
                 \<lparr>exit = Returned,
                  written = ''ERR Malformed Request: expected number'' @ [newline],
                  connClosed = False, counter = c\<rparr>
             | Inr num \<Rightarrow>
                 if num < minValue then
                   \<lparr>exit = Returned,
                    written = ''ERR Malformed Request: expected number greater than ''
                              @ formatInt minValue @ [newline],
                    connClosed = False, counter = c\<rparr>
                 else
                   (let c1 = Inc c; echo = formatInt num @ [newline]
                    in if HasValue num c1 then
                         \<lparr>exit = Returned, written = echo, connClosed = False, counter = c1\<rparr>
                       else
                         (case RecordUniq num appendErr c1 of
                            (Some e, c2) \<Rightarrow>
                              \<lparr>exit = Fatal (''could not log unique value: '' @ errorText e @ [newline]),
                               written = echo, connClosed = False, counter = c2\<rparr>
                          | (None, c2) \<Rightarrow>
                              \<lparr>exit = Returned, written = echo, connClosed = False, counter = c2\<rparr>))))"
  by (simp add: handleLine_def handleChecks_def handleRecord_def Let_def
      split: option.split GoError.split sum.split prod.split)

lemma handleLine_fault:
  "handleLine s (Some (OtherError msg)) appendErr c =
     \<lparr>exit = Fatal (''Error reading: '' @ msg), written = [], connClosed = False, counter = c\<rparr>"
  by (simp add: handleLine_body)

lemma handleLine_length:
  assumes "err = None \<or> err = Some EOF" and "length s \<noteq> validLen"
  shows "handleLine s err appendErr c =
     \<lparr>exit = Returned,
      written = ''ERR Malformed Request: expected length 10, got '' @ formatDigits (length s)
                @ ''.'' @ [newline],
      connClosed = False, counter = c\<rparr>"
  using assms by (auto simp: handleLine_body formatInt_nat formatDigits_validLen)

lemma handleLine_format:
  assumes "err = None \<or> err = Some EOF" and "length s = validLen" and "Atoi s = Inl e"
  shows "handleLine s err appendErr c =
     \<lparr>exit = Returned, written = ''ERR Malformed Request: expected number'' @ [newline],
      connClosed = False, counter = c\<rparr>"
  using assms by (auto simp: handleLine_body)

lemma handleLine_range:
  assumes "err = None \<or> err = Some EOF" and "length s = validLen" and "Atoi s = Inr num"
    and "num < minValue"
  shows "handleLine s err appendErr c =
     \<lparr>exit = Returned,
      written = ''ERR Malformed Request: expected number greater than 1000000'' @ [newline],
      connClosed = False, counter = c\<rparr>"
  using assms by (auto simp: handleLine_body formatInt_minValue)

lemma handleLine_seen:
  assumes "err = None \<or> err = Some EOF" and "length s = validLen" and "Atoi s = Inr num"
    and "minValue \<le> num" and "num |\<in>| seen c"
  shows "handleLine s err appendErr c =
     \<lparr>exit = Returned, written = formatInt num @ [newline], connClosed = False, counter = Inc c\<rparr>"
  using assms by (auto simp: handleLine_body Let_def HasValue_def Inc_def)

lemma handleLine_new:
  assumes "err = None \<or> err = Some EOF" and "length s = validLen" and "Atoi s = Inr num"
    and "minValue \<le> num" and "num |\<notin>| seen c"
  shows "handleLine s err None c =
     \<lparr>exit = Returned, written = formatInt num @ [newline], connClosed = False,
      counter = (Inc c)\<lparr>seen := finsert num (seen c), uniqLog := uniqLog c @ [num]\<rparr>\<rparr>"
  using assms by (auto simp: handleLine_body Let_def HasValue_def Inc_def RecordUniq_def)

lemma handleLine_append_fails:
  assumes "err = None \<or> err = Some EOF" and "length s = validLen" and "Atoi s = Inr num"
    and "minValue \<le> num" and "num |\<notin>| seen c"
  shows "handleLine s err (Some e) c =
     \<lparr>exit = Fatal (''could not log unique value: '' @ errorText e @ [newline]),
      written = formatInt num @ [newline], connClosed = False, counter = Inc c\<rparr>"
  using assms by (auto simp: handleLine_body Let_def HasValue_def Inc_def RecordUniq_def)

lemma handleLine_frame:
  "Sem (counter (handleLine s err appendErr c)) = Sem c \<and>
   SemCap (counter (handleLine s err appendErr c)) = SemCap c \<and>
   connClosed (handleLine s err appendErr c) = False \<and>
   exit (handleLine s err appendErr c) \<noteq> Blocked"
  by (simp add: handleLine_body Let_def Inc_def RecordUniq_def
      split: option.split GoError.split sum.split)

lemma handleConnection_read:
  assumes "ReadString newline conn = Some (s, err)"
  shows "handleConnection conn appendErr c =
     (if exit (handleLine s err appendErr c) = Returned
      then deferredClose (handleLine s err appendErr c)
      else handleLine s err appendErr c)"
  using assms by (simp add: handleConnection_def Let_def split: Exit.split)

lemma handleConnection_unread:
  assumes "ReadString newline conn = None"
  shows "handleConnection conn appendErr c =
     \<lparr>exit = Blocked, written = [], connClosed = False, counter = c\<rparr>"
  using assms by (simp add: handleConnection_def)

text \<open>
  From the body to the whole call: after a body that returns, the deferred closure runs;
  after a fatal exit it does not.
\<close>

lemma handleConnection_returns:
  assumes "ReadString newline conn = Some (s, err)"
    and "handleLine s err appendErr c =
           \<lparr>exit = Returned, written = w, connClosed = False, counter = c'\<rparr>"
  shows "written (handleConnection conn appendErr c) = w"
    and "totalValid (counter (handleConnection conn appendErr c)) = totalValid c'"
    and "intervalValid (counter (handleConnection conn appendErr c)) = intervalValid c'"
    and "seen (counter (handleConnection conn appendErr c)) = seen c'"
    and "uniqLog (counter (handleConnection conn appendErr c)) = uniqLog c'"
    and "SemCap (counter (handleConnection conn appendErr c)) = SemCap c'"
    and "Sem (counter (handleConnection conn appendErr c)) = drop 1 (Sem c')"
    and "connClosed (handleConnection conn appendErr c)"
    and "exit (handleConnection conn appendErr c) = (if Sem c' = [] then Blocked else Returned)"
  using assms
  by (simp_all add: handleConnection_read deferredClose_def split: list.split)

lemma handleConnection_fatal:
  assumes "ReadString newline conn = Some (s, err)"
    and "handleLine s err appendErr c =
           \<lparr>exit = Fatal msg, written = w, connClosed = False, counter = c'\<rparr>"
  shows "handleConnection conn appendErr c =
           \<lparr>exit = Fatal msg, written = w, connClosed = False, counter = c'\<rparr>"
  using assms by (simp add: handleConnection_read)

lemmas read_defs = ReadString_def newline_def
lemmas atoi_defs = Atoi_def ParseUint_def isDigit_def digitVal_def maxUint64_def maxInt64_def

lemma isDigit_newline: "\<not> isDigit newline"
  by (simp add: isDigit_def newline_def)

lemma digits_no_newline: "list_all isDigit s \<Longrightarrow> newline \<notin> set s"
  using isDigit_newline by (auto simp: list_all_iff)

lemma ReadString_line:
  assumes "upToDelim newline (incoming conn) = Some line"
  shows "ReadString newline conn = Some (line, None)"
  using assms by (simp add: ReadString_def)

lemma ReadString_closed:
  assumes "newline \<notin> set (incoming conn)" and "ending conn = PeerClosed"
  shows "ReadString newline conn = Some (incoming conn, Some EOF)"
  using assms by (simp add: ReadString_def upToDelim_none)

text \<open>
  A line that ReadString returns with its newline is never counted: it fails the length
  check, or it is 10 bytes long and \<^verbatim>\<open>strconv.Atoi\<close> rejects its last byte.
\<close>

lemma terminated_line_never_counted:
  assumes "upToDelim newline (incoming conn) = Some line"
  shows "totalValid (counter (handleConnection conn appendErr c)) = totalValid c
       \<and> intervalValid (counter (handleConnection conn appendErr c)) = intervalValid c
       \<and> seen (counter (handleConnection conn appendErr c)) = seen c
       \<and> uniqLog (counter (handleConnection conn appendErr c)) = uniqLog c"
proof -
  note rd = ReadString_line [OF assms]
  obtain body where line: "line = body @ [newline]"
    using upToDelim_ends [OF assms] by blast
  show ?thesis
  proof (cases "length line = validLen")
    case False
    have "None = None \<or> None = Some EOF" by simp
    from handleConnection_returns [OF rd handleLine_length [OF this False]]
    show ?thesis by simp
  next
    case True
    obtain e where "Atoi line = Inl e"
      using Atoi_nondigit_last [OF isDigit_newline, of body] line by blast
    have "None = None \<or> None = Some EOF" by simp
    from handleConnection_returns [OF rd handleLine_format [OF this True \<open>Atoi line = Inl e\<close>]]
    show ?thesis by simp
  qed
qed

lemma handleLine_fatal_iff:
  "isFatal (exit (handleLine s err appendErr c)) \<longleftrightarrow>
     (\<exists>msg. err = Some (OtherError msg))
     \<or> (\<exists>num e. length s = validLen \<and> Atoi s = Inr num \<and> minValue \<le> num
           \<and> num |\<notin>| seen c \<and> appendErr = Some e)"
  by (auto simp: handleLine_body Let_def HasValue_def Inc_def RecordUniq_def
      split: option.splits GoError.splits sum.splits)

lemma handleLine_exit:
  "exit (handleLine s err appendErr c) = Returned \<longleftrightarrow> \<not> isFatal (exit (handleLine s err appendErr c))"
  using handleLine_frame [of s err appendErr c]
  by (cases "exit (handleLine s err appendErr c)") simp_all

section \<open>The gate across the goroutines\<close>

text \<open>
  What one handler does to the gate, and the invariant of the process: the tokens in the
  channel are as many as the connections that hold one, and no more than the capacity.
\<close>

lemma handleConnection_gate:
  "SemCap (counter (handleConnection conn appendErr c)) = SemCap c"
  "exit (handleConnection conn appendErr c) = Returned \<Longrightarrow>
     length (Sem c) = Suc (length (Sem (counter (handleConnection conn appendErr c))))"
  "exit (handleConnection conn appendErr c) = Fatal msg \<Longrightarrow>
     Sem (counter (handleConnection conn appendErr c)) = Sem c"
proof -
  note frame = handleLine_frame
  show "SemCap (counter (handleConnection conn appendErr c)) = SemCap c"
    by (cases "ReadString newline conn")
      (auto simp: handleConnection_unread handleConnection_read frame deferredClose_def
        split: list.split)
  show "length (Sem c) = Suc (length (Sem (counter (handleConnection conn appendErr c))))"
    if "exit (handleConnection conn appendErr c) = Returned"
    using that frame
    by (cases "ReadString newline conn")
      (auto simp: handleConnection_unread handleConnection_read deferredClose_def
        split: list.splits if_splits)
  show "Sem (counter (handleConnection conn appendErr c)) = Sem c"
    if "exit (handleConnection conn appendErr c) = Fatal msg"
    using that frame
    by (cases "ReadString newline conn")
      (auto simp: handleConnection_unread handleConnection_read deferredClose_def
        split: list.splits if_splits)
qed

lemma length_remove_nth:
  "i < length xs \<Longrightarrow> Suc (length (take i xs @ drop (Suc i) xs)) = length xs"
  by simp

lemma step_gate:
  assumes "length (Sem (shared sv)) = holders sv"
    and "length (Sem (shared sv)) \<le> SemCap (shared sv)"
  shows "length (Sem (shared (step ev sv))) = holders (step ev sv)
       \<and> length (Sem (shared (step ev sv))) \<le> SemCap (shared (step ev sv))
       \<and> SemCap (shared (step ev sv)) = SemCap (shared sv)"
proof (cases "halted sv")
  case True
  then show ?thesis using assms by (simp add: step_def)
next
  case running: False
  show ?thesis
  proof (cases ev)
    case (Accept conn)
    then show ?thesis using assms running
      by (auto simp: step_def holders_def split: option.splits)
  next
    case AcceptFails
    then show ?thesis using assms running by (simp add: step_def)
  next
    case Dispatch
    then show ?thesis using assms running
      by (auto simp: step_def holders_def split: option.splits)
  next
    case Signal
    then show ?thesis using assms running by (simp add: step_def holders_def)
  next
    case (Finish i appendErr)
    show ?thesis
    proof (cases "i < length (handling sv)")
      case False
      then show ?thesis using assms running Finish by (simp add: step_def)
    next
      case True
      let ?out = "handleConnection (handling sv ! i) appendErr (shared sv)"
      show ?thesis
      proof (cases "exit ?out")
        case Returned
        from handleConnection_gate(2) [OF Returned]
        have "length (Sem (shared sv)) = Suc (length (Sem (counter ?out)))" .
        moreover note handleConnection_gate(1) [of "handling sv ! i" appendErr "shared sv"]
        moreover have "Suc (length (take i (handling sv) @ drop (Suc i) (handling sv)))
            = length (handling sv)"
          using True by (rule length_remove_nth)
        ultimately show ?thesis using assms running Finish True Returned
          by (auto simp: step_def holders_def Let_def split: option.splits)
      next
        case (Fatal msg)
        from handleConnection_gate(3) [OF Fatal]
        have "Sem (counter ?out) = Sem (shared sv)" .
        moreover note handleConnection_gate(1) [of "handling sv ! i" appendErr "shared sv"]
        ultimately show ?thesis using assms running Finish True Fatal
          by (auto simp: step_def holders_def Let_def split: option.splits)
      next
        case Blocked
        then show ?thesis using assms running Finish True
          by (simp add: step_def Let_def)
      qed
    qed
  qed
qed

lemma run_gate:
  assumes "length (Sem (shared sv)) = holders sv"
    and "length (Sem (shared sv)) \<le> SemCap (shared sv)"
  shows "length (Sem (shared (run evs sv))) = holders (run evs sv)
       \<and> length (Sem (shared (run evs sv))) \<le> SemCap (shared (run evs sv))
       \<and> SemCap (shared (run evs sv)) = SemCap (shared sv)"
  using assms
proof (induction evs arbitrary: sv)
  case Nil
  then show ?case by simp
next
  case (Cons ev evs)
  from step_gate [OF Cons.prems, of ev]
  have a: "length (Sem (shared (step ev sv))) = holders (step ev sv)"
    and b: "length (Sem (shared (step ev sv))) \<le> SemCap (shared (step ev sv))"
    and c: "SemCap (shared (step ev sv)) = SemCap (shared sv)" by simp_all
  from Cons.IH [OF a b] c show ?case by simp
qed

lemma NewServer_gate:
  "length (Sem (shared NewServer)) = holders NewServer"
  "length (Sem (shared NewServer)) \<le> SemCap (shared NewServer)"
  "SemCap (shared NewServer) = connLimit"
  by (simp_all add: NewServer_def NewCounter_def holders_def)

text \<open>
  A running handler always finds a token to take back: the receive in the deferred closure
  never waits in a state the process reaches.
\<close>

lemma release_never_waits:
  assumes "i < length (handling (run evs NewServer))"
  shows "Sem (shared (run evs NewServer)) \<noteq> []"
proof -
  have "length (Sem (shared (run evs NewServer))) = holders (run evs NewServer)"
    using run_gate [OF NewServer_gate(1,2), of evs] by simp
  moreover have "length (handling (run evs NewServer)) \<le> holders (run evs NewServer)"
    by (simp add: holders_def)
  then have "0 < holders (run evs NewServer)"
    using assms by linarith
  ultimately show ?thesis by auto
qed

section \<open>The claims\<close>

text \<open>
  C1, at inputs on which main.go departs from it. The request \<^verbatim>\<open>123456789\n\<close> is
  well-formed: 10 bytes, nine decimal digits and the newline, the number 123456789 above
  the minimum. ReadString hands the line over with its newline, the length check passes,
  and \<^verbatim>\<open>strconv.Atoi\<close> is given the newline too and rejects it: the client is written
  \<^verbatim>\<open>ERR Malformed Request: expected number\<close> instead of its number, and totalValid does
  not move. Ten digits and the newline, \<^verbatim>\<open>1234567890\n\<close>, fare no better: the line is 11
  bytes long and is stopped by the length check.
\<close>

theorem terminated_request_refused:
  "written (handleConnection \<lparr>incoming = ''123456789'' @ [newline], ending = fin\<rparr> appendErr c)
     = ''ERR Malformed Request: expected number'' @ [newline]
   \<and> totalValid (counter (handleConnection
        \<lparr>incoming = ''123456789'' @ [newline], ending = fin\<rparr> appendErr c)) = totalValid c
   \<and> written (handleConnection \<lparr>incoming = ''1234567890'' @ [newline], ending = fin\<rparr> appendErr c)
     = ''ERR Malformed Request: expected length 10, got 11.'' @ [newline]
   \<and> totalValid (counter (handleConnection
        \<lparr>incoming = ''1234567890'' @ [newline], ending = fin\<rparr> appendErr c)) = totalValid c"
proof -
  have ok: "None = None \<or> None = Some EOF" by simp
  have rd: "ReadString newline \<lparr>incoming = ''123456789'' @ [newline], ending = fin\<rparr>
              = Some (''123456789'' @ [newline], None)"
    by (simp add: ReadString_def newline_def)
  have len: "length (''123456789'' @ [newline]) = validLen"
    by (simp add: validLen_def)
  have bad: "Atoi (''123456789'' @ [newline]) = Inl ErrSyntax"
    by (simp add: Atoi_def ParseUint_def isDigit_def digitVal_def maxUint64_def newline_def)
  note nine = handleConnection_returns [OF rd handleLine_format [OF ok len bad]]
  have rd': "ReadString newline \<lparr>incoming = ''1234567890'' @ [newline], ending = fin\<rparr>
              = Some (''1234567890'' @ [newline], None)"
    by (simp add: ReadString_def newline_def)
  have len': "length (''1234567890'' @ [newline]) \<noteq> validLen"
    by (simp add: validLen_def)
  note ten = handleConnection_returns [OF rd' handleLine_length [OF ok len']]
  show ?thesis
    using nine ten by (simp add: formatDigits.simps digitTable_def)
qed

text \<open>
  C2, amended. The line \<^verbatim>\<open>0000000001\n\<close> is 11 bytes long with its newline, so it is
  stopped by the length check: the answer is
  \<^verbatim>\<open>ERR Malformed Request: expected length 10, got 11.\<close> and nothing is recorded. The
  answer \<^verbatim>\<open>ERR Malformed Request: expected number greater than 1000000\<close> is what the 10
  bytes \<^verbatim>\<open>0000000001\<close> get when no newline follows them and the peer closes the stream;
  nothing is recorded then either.
\<close>

theorem below_minimum_scenario:
  "written (handleConnection \<lparr>incoming = ''0000000001'' @ [newline], ending = fin\<rparr> appendErr c)
     = ''ERR Malformed Request: expected length 10, got 11.'' @ [newline]
   \<and> totalValid (counter (handleConnection
        \<lparr>incoming = ''0000000001'' @ [newline], ending = fin\<rparr> appendErr c)) = totalValid c
   \<and> seen (counter (handleConnection
        \<lparr>incoming = ''0000000001'' @ [newline], ending = fin\<rparr> appendErr c)) = seen c
   \<and> uniqLog (counter (handleConnection
        \<lparr>incoming = ''0000000001'' @ [newline], ending = fin\<rparr> appendErr c)) = uniqLog c
   \<and> written (handleConnection \<lparr>incoming = ''0000000001'', ending = PeerClosed\<rparr> appendErr c)
     = ''ERR Malformed Request: expected number greater than 1000000'' @ [newline]
   \<and> totalValid (counter (handleConnection
        \<lparr>incoming = ''0000000001'', ending = PeerClosed\<rparr> appendErr c)) = totalValid c
   \<and> seen (counter (handleConnection
        \<lparr>incoming = ''0000000001'', ending = PeerClosed\<rparr> appendErr c)) = seen c
   \<and> uniqLog (counter (handleConnection
        \<lparr>incoming = ''0000000001'', ending = PeerClosed\<rparr> appendErr c)) = uniqLog c"
proof -
  have rd: "ReadString newline \<lparr>incoming = ''0000000001'' @ [newline], ending = fin\<rparr>
              = Some (''0000000001'' @ [newline], None)"
    by (simp add: ReadString_def newline_def)
  have len: "length (''0000000001'' @ [newline]) \<noteq> validLen"
    by (simp add: validLen_def)
  have ok: "None = None \<or> None = Some EOF" by simp
  note terminated = handleConnection_returns [OF rd handleLine_length [OF ok len]]
  have rd': "ReadString newline \<lparr>incoming = ''0000000001'', ending = PeerClosed\<rparr>
              = Some (''0000000001'', Some EOF)"
    by (simp add: ReadString_def newline_def)
  have len': "length ''0000000001'' = validLen"
    by (simp add: validLen_def)
  have val: "Atoi ''0000000001'' = Inr 1"
    by (simp add: Atoi_def ParseUint_def isDigit_def digitVal_def maxUint64_def maxInt64_def)
  have low: "(1::int) < minValue" by (simp add: minValue_def)
  have ok': "Some EOF = None \<or> Some EOF = Some EOF" by simp
  note unterminated = handleConnection_returns [OF rd' handleLine_range [OF ok' len' val low]]
  show ?thesis
    using terminated unterminated by (simp add: formatDigits.simps digitTable_def)
qed

text \<open>
  C2 as the specification states it fails: the answer to \<^verbatim>\<open>0000000001\n\<close> is not the
  below-minimum line.
\<close>

theorem below_minimum_scenario_counterexample:
  "written (handleConnection \<lparr>incoming = ''0000000001'' @ [newline], ending = PeerClosed\<rparr> None
              ((NewCounter connLimit)\<lparr>Sem := [1]\<rparr>))
     \<noteq> ''ERR Malformed Request: expected number greater than 1000000'' @ [newline]"
proof -
  have rd: "ReadString newline \<lparr>incoming = ''0000000001'' @ [newline], ending = PeerClosed\<rparr>
              = Some (''0000000001'' @ [newline], None)"
    by (simp add: ReadString_def newline_def)
  have len: "length (''0000000001'' @ [newline]) \<noteq> validLen"
    by (simp add: validLen_def)
  have ok: "None = None \<or> None = Some EOF" by simp
  from handleConnection_returns(1) [OF rd handleLine_length [OF ok len]]
  show ?thesis by (simp add: formatDigits.simps digitTable_def)
qed

text \<open>
  C3. Whenever the line that was read (counted raw, with its terminator when there is
  one) is not exactly 10 bytes long, the handler answers
  \<^verbatim>\<open>ERR Malformed Request: expected length 10, got M.\<close> and a newline, \<open>M\<close> the decimal
  length of the line, whatever the line would parse to; no total, no dedup set and no log
  changes and the process goes on. In particular the 4-byte line \<^verbatim>\<open>123\n\<close> is answered
  with \<^verbatim>\<open>got 4.\<close>
\<close>

theorem wrong_length_rejected:
  assumes "ReadString newline conn = Some (s, err)"
    and "err = None \<or> err = Some EOF"
    and "length s \<noteq> validLen"
  shows "written (handleConnection conn appendErr c) =
           ''ERR Malformed Request: expected length 10, got '' @ formatDigits (length s)
           @ ''.'' @ [newline]
       \<and> totalValid (counter (handleConnection conn appendErr c)) = totalValid c
       \<and> intervalValid (counter (handleConnection conn appendErr c)) = intervalValid c
       \<and> seen (counter (handleConnection conn appendErr c)) = seen c
       \<and> uniqLog (counter (handleConnection conn appendErr c)) = uniqLog c
       \<and> \<not> isFatal (exit (handleConnection conn appendErr c))
       \<and> written (handleConnection \<lparr>incoming = ''123'' @ [newline], ending = fin\<rparr> appendErr c) =
           ''ERR Malformed Request: expected length 10, got 4.'' @ [newline]"
proof -
  have rd: "ReadString newline \<lparr>incoming = ''123'' @ [newline], ending = fin\<rparr>
              = Some (''123'' @ [newline], None)"
    by (simp add: read_defs)
  have "handleLine (''123'' @ [newline]) None appendErr c =
          \<lparr>exit = Returned,
           written = ''ERR Malformed Request: expected length 10, got 4.'' @ [newline],
           connClosed = False, counter = c\<rparr>"
    using handleLine_length [of None "''123'' @ [newline]" appendErr c]
    by (simp add: validLen_def formatDigits.simps digitTable_def)
  note particular = handleConnection_returns(1) [OF rd this]
  note general = handleConnection_returns [OF assms(1) handleLine_length [OF assms(2,3)]]
  show ?thesis
    using general particular by simp
qed

theorem wrong_length_rejected_witness:
  "ReadString newline \<lparr>incoming = ''12345678901'', ending = PeerClosed\<rparr>
     = Some (''12345678901'', Some EOF)
   \<and> length ''12345678901'' \<noteq> validLen
   \<and> Atoi ''12345678901'' = Inr 12345678901
   \<and> written (handleConnection \<lparr>incoming = ''12345678901'', ending = PeerClosed\<rparr> None
               ((NewCounter connLimit)\<lparr>Sem := [1]\<rparr>))
       = ''ERR Malformed Request: expected length 10, got 11.'' @ [newline]
   \<and> totalValid (counter (handleConnection \<lparr>incoming = ''12345678901'', ending = PeerClosed\<rparr> None
               ((NewCounter connLimit)\<lparr>Sem := [1]\<rparr>))) = 0"
  using wrong_length_rejected [of "\<lparr>incoming = ''12345678901'', ending = PeerClosed\<rparr>"
      "''12345678901''" "Some EOF" None "(NewCounter connLimit)\<lparr>Sem := [1]\<rparr>"]
  by (simp add: read_defs atoi_defs validLen_def formatDigits.simps digitTable_def NewCounter_def)

text \<open>
  C4, at inputs on which main.go departs from it. The well-formed request
  \<^verbatim>\<open>123456789\n\<close> is submitted and then submitted again. As for C1, each handler is stopped
  at \<^verbatim>\<open>strconv.Atoi\<close> by the newline: whatever state it finds the counter in, all it does
  to it is give its token back, and its answer is \<^verbatim>\<open>ERR Malformed Request: expected number\<close>.
  After both the dedup set is what it was, grown by 0 and not by 1, totalValid has not
  moved, and the second submission was not echoed.

  Of the requests main.go does accept, the 10 bytes \<^verbatim>\<open>1234567890\<close> at end of stream, sent
  on two connections to a new counter: the first handler comes to stand before
  \<^verbatim>\<open>RecordUniq\<close>; a second handler that takes its \<^verbatim>\<open>HasValue\<close> before the first has called
  \<^verbatim>\<open>RecordUniq\<close> comes to stand there too, so \<^verbatim>\<open>RecordUniq\<close> is called again; only a
  second handler that comes after the first one's call is stopped at \<^verbatim>\<open>HasValue\<close>. With
  \<^verbatim>\<open>RecordUniq\<close> as the specification describes it, the second call adds nothing to the set
  or to the log.
\<close>

theorem repeated_request_never_recorded:
  "counter (handleConnection \<lparr>incoming = ''123456789'' @ [newline], ending = fin\<rparr> appendErr c)
     = c\<lparr>Sem := drop 1 (Sem c)\<rparr>
   \<and> written (handleConnection \<lparr>incoming = ''123456789'' @ [newline], ending = fin\<rparr> appendErr c)
     = ''ERR Malformed Request: expected number'' @ [newline]
   \<and> seen (counter (handleConnection \<lparr>incoming = ''123456789'' @ [newline], ending = fin'\<rparr> appendErr'
        (counter (handleConnection \<lparr>incoming = ''123456789'' @ [newline], ending = fin\<rparr> appendErr c))))
     = seen c
   \<and> totalValid (counter (handleConnection \<lparr>incoming = ''123456789'' @ [newline], ending = fin'\<rparr> appendErr'
        (counter (handleConnection \<lparr>incoming = ''123456789'' @ [newline], ending = fin\<rparr> appendErr c))))
     = totalValid c
   \<and> handleChecks ''1234567890'' (Some EOF) (NewCounter connLimit)
     = AtRecordUniq 1234567890 (''1234567890'' @ [newline]) (Inc (NewCounter connLimit))
   \<and> handleChecks ''1234567890'' (Some EOF) (Inc (NewCounter connLimit))
     = AtRecordUniq 1234567890 (''1234567890'' @ [newline]) (Inc (Inc (NewCounter connLimit)))
   \<and> handleChecks ''1234567890'' (Some EOF)
        (counter (handleRecord 1234567890 (''1234567890'' @ [newline]) None (Inc (NewCounter connLimit))))
     = Finished
         \<lparr>exit = Returned, written = ''1234567890'' @ [newline], connClosed = False,
          counter = Inc (counter (handleRecord 1234567890 (''1234567890'' @ [newline]) None
                      (Inc (NewCounter connLimit))))\<rparr>
   \<and> seen (counter (handleRecord 1234567890 (''1234567890'' @ [newline]) appendErr'
        (counter (handleRecord 1234567890 (''1234567890'' @ [newline]) None
           (Inc (Inc (NewCounter connLimit)))))))
     = {|1234567890|}
   \<and> uniqLog (counter (handleRecord 1234567890 (''1234567890'' @ [newline]) appendErr'
        (counter (handleRecord 1234567890 (''1234567890'' @ [newline]) None
           (Inc (Inc (NewCounter connLimit)))))))
     = [1234567890]"
proof -
  have ok: "None = None \<or> None = Some EOF" by simp
  have len: "length (''123456789'' @ [newline]) = validLen"
    by (simp add: validLen_def)
  have bad: "Atoi (''123456789'' @ [newline]) = Inl ErrSyntax"
    by (simp add: Atoi_def ParseUint_def isDigit_def digitVal_def maxUint64_def newline_def)
  have rd: "ReadString newline \<lparr>incoming = ''123456789'' @ [newline], ending = e\<rparr>
              = Some (''123456789'' @ [newline], None)" for e
    by (simp add: ReadString_def newline_def)
  have line: "handleLine (''123456789'' @ [newline]) None a k =
      \<lparr>exit = Returned, written = ''ERR Malformed Request: expected number'' @ [newline],
       connClosed = False, counter = k\<rparr>" for a k
    by (rule handleLine_format [OF ok len bad])
  have call: "handleConnection \<lparr>incoming = ''123456789'' @ [newline], ending = e\<rparr> a k
      = deferredClose
          \<lparr>exit = Returned, written = ''ERR Malformed Request: expected number'' @ [newline],
           connClosed = False, counter = k\<rparr>" for e a k
    using handleConnection_read [OF rd, of e a k] unfolding line by simp
  have whole: "counter (handleConnection \<lparr>incoming = ''123456789'' @ [newline], ending = e\<rparr> a k)
      = k\<lparr>Sem := drop 1 (Sem k)\<rparr>" for e a k
    unfolding call by (cases "Sem k") (simp_all add: deferredClose_def)
  note once = handleConnection_returns(1) [OF rd line]
  have val: "Atoi ''1234567890'' = Inr 1234567890"
    by (simp add: Atoi_def ParseUint_def isDigit_def digitVal_def maxUint64_def maxInt64_def)
  have echo: "formatInt 1234567890 = ''1234567890''"
    by (simp add: formatInt_def formatDigits.simps digitTable_def)
  have first: "handleChecks ''1234567890'' (Some EOF) (NewCounter connLimit)
     = AtRecordUniq 1234567890 (''1234567890'' @ [newline]) (Inc (NewCounter connLimit))"
    using val echo
    by (simp add: handleChecks_def validLen_def minValue_def Let_def HasValue_def Inc_def
        NewCounter_def)
  have early: "handleChecks ''1234567890'' (Some EOF) (Inc (NewCounter connLimit))
     = AtRecordUniq 1234567890 (''1234567890'' @ [newline]) (Inc (Inc (NewCounter connLimit)))"
    using val echo
    by (simp add: handleChecks_def validLen_def minValue_def Let_def HasValue_def Inc_def
        NewCounter_def)
  have late: "handleChecks ''1234567890'' (Some EOF)
        (counter (handleRecord 1234567890 (''1234567890'' @ [newline]) None (Inc (NewCounter connLimit))))
     = Finished
         \<lparr>exit = Returned, written = ''1234567890'' @ [newline], connClosed = False,
          counter = Inc (counter (handleRecord 1234567890 (''1234567890'' @ [newline]) None
                      (Inc (NewCounter connLimit))))\<rparr>"
    using val echo
    by (simp add: handleChecks_def handleRecord_def RecordUniq_def validLen_def minValue_def
        Let_def HasValue_def Inc_def NewCounter_def)
  have twice: "seen (counter (handleRecord 1234567890 (''1234567890'' @ [newline]) appendErr'
        (counter (handleRecord 1234567890 (''1234567890'' @ [newline]) None
           (Inc (Inc (NewCounter connLimit)))))))
     = {|1234567890|}
   \<and> uniqLog (counter (handleRecord 1234567890 (''1234567890'' @ [newline]) appendErr'
        (counter (handleRecord 1234567890 (''1234567890'' @ [newline]) None
           (Inc (Inc (NewCounter connLimit)))))))
     = [1234567890]"
    by (simp add: handleRecord_def RecordUniq_def Inc_def NewCounter_def)
  show ?thesis
    using whole once first early late twice by simp
qed

text \<open>
  C5. The gate is made with capacity \<^verbatim>\<open>connLimit\<close>, which is 6, and keeps it; in every
  state the process reaches, whatever the order of accepts, hand-offs, handler ends and
  signals, the channel holds at most 6 tokens and at most 6 handlers are running.
\<close>

theorem gate_never_over_limit:
  "connLimit = 6
   \<and> SemCap (shared (run evs NewServer)) = connLimit
   \<and> length (Sem (shared (run evs NewServer))) \<le> connLimit
   \<and> length (handling (run evs NewServer)) \<le> connLimit"
proof -
  from run_gate [OF NewServer_gate(1,2), of evs] NewServer_gate(3)
  have eq: "length (Sem (shared (run evs NewServer))) = holders (run evs NewServer)"
    and le: "length (Sem (shared (run evs NewServer))) \<le> connLimit"
    and cap: "SemCap (shared (run evs NewServer)) = connLimit" by simp_all
  have "length (handling (run evs NewServer)) \<le> holders (run evs NewServer)"
    by (simp add: holders_def)
  with eq le cap show ?thesis by (simp add: connLimit_def)
qed

text \<open>
  Seven connections that send nothing more: six are handed to handlers, the seventh is
  written \<^verbatim>\<open>Server busy.\<close> and closed.
\<close>

theorem gate_never_over_limit_witness:
  "length (Sem (shared (run
      [Accept \<lparr>incoming = ''1'', ending = StaysOpen\<rparr>, Dispatch,
       Accept \<lparr>incoming = ''2'', ending = StaysOpen\<rparr>, Dispatch,
       Accept \<lparr>incoming = ''3'', ending = StaysOpen\<rparr>, Dispatch,
       Accept \<lparr>incoming = ''4'', ending = StaysOpen\<rparr>, Dispatch,
       Accept \<lparr>incoming = ''5'', ending = StaysOpen\<rparr>, Dispatch,
       Accept \<lparr>incoming = ''6'', ending = StaysOpen\<rparr>, Dispatch,
       Accept \<lparr>incoming = ''7'', ending = StaysOpen\<rparr>, Dispatch] NewServer))) \<le> connLimit
   \<and> turnedAway (run
      [Accept \<lparr>incoming = ''1'', ending = StaysOpen\<rparr>, Dispatch,
       Accept \<lparr>incoming = ''2'', ending = StaysOpen\<rparr>, Dispatch,
       Accept \<lparr>incoming = ''3'', ending = StaysOpen\<rparr>, Dispatch,
       Accept \<lparr>incoming = ''4'', ending = StaysOpen\<rparr>, Dispatch,
       Accept \<lparr>incoming = ''5'', ending = StaysOpen\<rparr>, Dispatch,
       Accept \<lparr>incoming = ''6'', ending = StaysOpen\<rparr>, Dispatch,
       Accept \<lparr>incoming = ''7'', ending = StaysOpen\<rparr>, Dispatch] NewServer)
     = [(\<lparr>incoming = ''7'', ending = StaysOpen\<rparr>, ''Server busy.'')]"
proof -
  let ?evs = "[Accept \<lparr>incoming = ''1'', ending = StaysOpen\<rparr>, Dispatch,
       Accept \<lparr>incoming = ''2'', ending = StaysOpen\<rparr>, Dispatch,
       Accept \<lparr>incoming = ''3'', ending = StaysOpen\<rparr>, Dispatch,
       Accept \<lparr>incoming = ''4'', ending = StaysOpen\<rparr>, Dispatch,
       Accept \<lparr>incoming = ''5'', ending = StaysOpen\<rparr>, Dispatch,
       Accept \<lparr>incoming = ''6'', ending = StaysOpen\<rparr>, Dispatch,
       Accept \<lparr>incoming = ''7'', ending = StaysOpen\<rparr>, Dispatch]"
  have bound: "length (Sem (shared (run ?evs NewServer))) \<le> connLimit"
    using gate_never_over_limit [of ?evs] by blast
  have busy: "turnedAway (run ?evs NewServer)
     = [(\<lparr>incoming = ''7'', ending = StaysOpen\<rparr>, ''Server busy.'')]"
    by (simp add: step_def NewServer_def NewCounter_def connLimit_def)
  from bound busy show ?thesis by (rule conjI)
qed

text \<open>
  C6, amended. A handler that holds a token gives it back exactly once, after closing the
  connection, on every path on which it returns: the normal return, the three validation
  failures, the clean end of stream. On the two fatal paths (a read error other than
  end of stream, a failed append of a new unique value) \<^verbatim>\<open>log.Fatalf\<close> ends the process
  before the deferred closure runs: the connection is not closed and no token is given
  back. A connection that finds the gate full is only answered \<^verbatim>\<open>Server busy.\<close>: it
  takes no token, no handler is started for it, the gate is not touched. Across the whole
  process the tokens in the gate are exactly the connections admitted and not yet
  finished.
\<close>

theorem release_paired_with_return:
  fixes conn :: Conn and appendErr :: "GoError option" and c :: Counter
  defines "out \<equiv> handleConnection conn appendErr c"
  assumes rd: "ReadString newline conn = Some (s, err)"
    and tok: "Sem c = tok # rest"
  shows "(if (\<exists>msg. err = Some (OtherError msg))
             \<or> (\<exists>num e. length s = validLen \<and> Atoi s = Inr num \<and> minValue \<le> num
                   \<and> num |\<notin>| seen c \<and> appendErr = Some e)
          then isFatal (exit out) \<and> Sem (counter out) = tok # rest \<and> \<not> connClosed out
          else exit out = Returned \<and> Sem (counter out) = rest \<and> connClosed out)
       \<and> (\<not> halted sv \<and> handoff sv = None \<and> length (Sem (shared sv)) = SemCap (shared sv) \<longrightarrow>
            step (Accept conn') sv = sv\<lparr>turnedAway := turnedAway sv @ [(conn', ''Server busy.'')]\<rparr>)
       \<and> length (Sem (shared (run evs NewServer))) = holders (run evs NewServer)"
proof (intro conjI impI)
  let ?line = "handleLine s err appendErr c"
  note frame = handleLine_frame [of s err appendErr c]
  show "if (\<exists>msg. err = Some (OtherError msg))
             \<or> (\<exists>num e. length s = validLen \<and> Atoi s = Inr num \<and> minValue \<le> num
                   \<and> num |\<notin>| seen c \<and> appendErr = Some e)
          then isFatal (exit out) \<and> Sem (counter out) = tok # rest \<and> \<not> connClosed out
          else exit out = Returned \<and> Sem (counter out) = rest \<and> connClosed out"
  proof (cases "isFatal (exit ?line)")
    case True
    then have "exit ?line \<noteq> Returned" by auto
    then have "out = ?line" by (simp add: out_def handleConnection_read [OF rd])
    then show ?thesis
      using True frame tok handleLine_fatal_iff [of s err appendErr c] by simp
  next
    case False
    then have "exit ?line = Returned" by (simp add: handleLine_exit)
    then have "out = deferredClose ?line" by (simp add: out_def handleConnection_read [OF rd])
    then show ?thesis
      using False \<open>exit ?line = Returned\<close> frame tok handleLine_fatal_iff [of s err appendErr c]
      by (simp add: deferredClose_def)
  qed
next
  assume "\<not> halted sv \<and> handoff sv = None \<and> length (Sem (shared sv)) = SemCap (shared sv)"
  then show "step (Accept conn') sv
      = sv\<lparr>turnedAway := turnedAway sv @ [(conn', ''Server busy.'')]\<rparr>"
    by (simp add: step_def)
next
  show "length (Sem (shared (run evs NewServer))) = holders (run evs NewServer)"
    using run_gate [OF NewServer_gate(1,2), of evs] by simp
qed

theorem release_paired_with_return_witness:
  "exit (handleConnection \<lparr>incoming = ''123'' @ [newline], ending = StaysOpen\<rparr> None
          ((NewCounter connLimit)\<lparr>Sem := [1, 1]\<rparr>)) = Returned
   \<and> Sem (counter (handleConnection \<lparr>incoming = ''123'' @ [newline], ending = StaysOpen\<rparr> None
          ((NewCounter connLimit)\<lparr>Sem := [1, 1]\<rparr>))) = [1]
   \<and> isFatal (exit (handleConnection \<lparr>incoming = ''123'', ending = ReadFails ''broken pipe''\<rparr> None
          ((NewCounter connLimit)\<lparr>Sem := [1, 1]\<rparr>)))
   \<and> Sem (counter (handleConnection \<lparr>incoming = ''123'', ending = ReadFails ''broken pipe''\<rparr> None
          ((NewCounter connLimit)\<lparr>Sem := [1, 1]\<rparr>))) = [1, 1]
   \<and> step (Accept \<lparr>incoming = ''7'', ending = StaysOpen\<rparr>)
        \<lparr>shared = (NewCounter 2)\<lparr>Sem := [1, 1]\<rparr>, handoff = None,
         handling = [\<lparr>incoming = ''1'', ending = StaysOpen\<rparr>, \<lparr>incoming = ''2'', ending = StaysOpen\<rparr>],
         turnedAway = [], halted = False\<rparr>
     = \<lparr>shared = (NewCounter 2)\<lparr>Sem := [1, 1]\<rparr>, handoff = None,
         handling = [\<lparr>incoming = ''1'', ending = StaysOpen\<rparr>, \<lparr>incoming = ''2'', ending = StaysOpen\<rparr>],
         turnedAway = [(\<lparr>incoming = ''7'', ending = StaysOpen\<rparr>, ''Server busy.'')],
         halted = False\<rparr>"
proof -
  let ?c = "(NewCounter connLimit)\<lparr>Sem := [1, 1]\<rparr>"
  let ?full = "\<lparr>shared = (NewCounter 2)\<lparr>Sem := [1, 1]\<rparr>, handoff = None,
         handling = [\<lparr>incoming = ''1'', ending = StaysOpen\<rparr>, \<lparr>incoming = ''2'', ending = StaysOpen\<rparr>],
         turnedAway = [], halted = False\<rparr>"
  have rd1: "ReadString newline \<lparr>incoming = ''123'' @ [newline], ending = StaysOpen\<rparr>
      = Some (''123'' @ [newline], None)"
    by (simp add: ReadString_def newline_def)
  have rd2: "ReadString newline \<lparr>incoming = ''123'', ending = ReadFails ''broken pipe''\<rparr>
      = Some (''123'', Some (OtherError ''broken pipe''))"
    by (simp add: ReadString_def newline_def)
  have tok: "Sem ?c = 1 # [1]" by (simp add: NewCounter_def)
  note t1 = release_paired_with_return [OF rd1 tok, where appendErr = None and sv = ?full
      and conn' = "\<lparr>incoming = ''7'', ending = StaysOpen\<rparr>" and evs = "[]"]
  note t2 = release_paired_with_return [OF rd2 tok, where appendErr = None and sv = ?full
      and conn' = "\<lparr>incoming = ''7'', ending = StaysOpen\<rparr>" and evs = "[]"]
  have p1: "exit (handleConnection \<lparr>incoming = ''123'' @ [newline], ending = StaysOpen\<rparr> None ?c)
      = Returned
    \<and> Sem (counter (handleConnection \<lparr>incoming = ''123'' @ [newline], ending = StaysOpen\<rparr> None ?c))
      = [1]"
    using t1 by (simp add: validLen_def)
  have p2: "isFatal (exit (handleConnection \<lparr>incoming = ''123'', ending = ReadFails ''broken pipe''\<rparr>
      None ?c))
    \<and> Sem (counter (handleConnection \<lparr>incoming = ''123'', ending = ReadFails ''broken pipe''\<rparr>
      None ?c)) = [1, 1]"
    using t2 by simp
  have p3: "step (Accept \<lparr>incoming = ''7'', ending = StaysOpen\<rparr>) ?full
     = ?full\<lparr>turnedAway := turnedAway ?full @ [(\<lparr>incoming = ''7'', ending = StaysOpen\<rparr>, ''Server busy.'')]\<rparr>"
    using t1 by (simp add: NewCounter_def)
  from p1 p2 p3 show ?thesis by simp
qed

text \<open>
  C6 as the specification states it fails on the read-failure path: the process ends
  with the token still in the gate and the connection open.
\<close>

theorem read_failure_counterexample:
  "exit (handleConnection \<lparr>incoming = ''1234567890'', ending = ReadFails ''connection reset''\<rparr>
          None ((NewCounter connLimit)\<lparr>Sem := [1]\<rparr>))
     = Fatal ''Error reading: connection reset''
   \<and> Sem (counter (handleConnection
          \<lparr>incoming = ''1234567890'', ending = ReadFails ''connection reset''\<rparr>
          None ((NewCounter connLimit)\<lparr>Sem := [1]\<rparr>))) = [1]
   \<and> \<not> connClosed (handleConnection
          \<lparr>incoming = ''1234567890'', ending = ReadFails ''connection reset''\<rparr>
          None ((NewCounter connLimit)\<lparr>Sem := [1]\<rparr>))"
proof -
  have rd: "ReadString newline \<lparr>incoming = ''1234567890'', ending = ReadFails ''connection reset''\<rparr>
      = Some (''1234567890'', Some (OtherError ''connection reset''))"
    by (simp add: ReadString_def newline_def)
  from handleConnection_fatal [OF rd handleLine_fault]
  show ?thesis by (simp add: NewCounter_def)
qed

text \<open>
  C7. A read error other than the clean end of stream, and a failed append of a newly
  unique value, each end the process through \<^verbatim>\<open>log.Fatalf\<close> with the message logged;
  a wrong length, an unparsable line and a value below the minimum are answered on the
  connection and never end the process. The process ends in no other case.
\<close>

theorem faults_fatal_client_errors_local:
  fixes conn :: Conn and appendErr :: "GoError option" and c :: Counter
  defines "out \<equiv> handleConnection conn appendErr c"
  assumes rd: "ReadString newline conn = Some (s, err)"
  shows "(\<forall>msg. err = Some (OtherError msg) \<longrightarrow>
            exit out = Fatal (''Error reading: '' @ msg) \<and> written out = [])
       \<and> (\<forall>num e. (err = None \<or> err = Some EOF) \<and> length s = validLen \<and> Atoi s = Inr num
            \<and> minValue \<le> num \<and> num |\<notin>| seen c \<and> appendErr = Some e \<longrightarrow>
            exit out = Fatal (''could not log unique value: '' @ errorText e @ [newline]))
       \<and> ((err = None \<or> err = Some EOF) \<and> length s \<noteq> validLen \<longrightarrow>
            \<not> isFatal (exit out)
            \<and> written out = ''ERR Malformed Request: expected length 10, got ''
                @ formatDigits (length s) @ ''.'' @ [newline])
       \<and> (\<forall>e. (err = None \<or> err = Some EOF) \<and> length s = validLen \<and> Atoi s = Inl e \<longrightarrow>
            \<not> isFatal (exit out)
            \<and> written out = ''ERR Malformed Request: expected number'' @ [newline])
       \<and> (\<forall>num. (err = None \<or> err = Some EOF) \<and> length s = validLen \<and> Atoi s = Inr num
            \<and> num < minValue \<longrightarrow>
            \<not> isFatal (exit out)
            \<and> written out = ''ERR Malformed Request: expected number greater than 1000000''
                @ [newline])
       \<and> (isFatal (exit out) \<longrightarrow>
            (\<exists>msg. err = Some (OtherError msg))
            \<or> (\<exists>num e. length s = validLen \<and> Atoi s = Inr num \<and> minValue \<le> num
                 \<and> num |\<notin>| seen c \<and> appendErr = Some e))"
proof (intro conjI allI impI)
  fix msg assume "err = Some (OtherError msg)"
  then show "exit out = Fatal (''Error reading: '' @ msg)" and "written out = []"
    using handleConnection_fatal [OF rd [unfolded \<open>err = Some (OtherError msg)\<close>] handleLine_fault]
    by (simp_all add: out_def)
next
  fix num e
  assume h: "(err = None \<or> err = Some EOF) \<and> length s = validLen \<and> Atoi s = Inr num
            \<and> minValue \<le> num \<and> num |\<notin>| seen c \<and> appendErr = Some e"
  then have "handleLine s err appendErr c =
     \<lparr>exit = Fatal (''could not log unique value: '' @ errorText e @ [newline]),
      written = formatInt num @ [newline], connClosed = False, counter = Inc c\<rparr>"
    using handleLine_append_fails [of err s num c e] by simp
  from handleConnection_fatal [OF rd this]
  show "exit out = Fatal (''could not log unique value: '' @ errorText e @ [newline])"
    by (simp add: out_def)
next
  assume h: "(err = None \<or> err = Some EOF) \<and> length s \<noteq> validLen"
  then have ok: "err = None \<or> err = Some EOF" and len: "length s \<noteq> validLen" by simp_all
  from handleConnection_returns [OF rd handleLine_length [OF ok len]]
  show "\<not> isFatal (exit out)"
    and "written out = ''ERR Malformed Request: expected length 10, got ''
                @ formatDigits (length s) @ ''.'' @ [newline]"
    by (simp_all add: out_def)
next
  fix e assume h: "(err = None \<or> err = Some EOF) \<and> length s = validLen \<and> Atoi s = Inl e"
  then have ok: "err = None \<or> err = Some EOF" and len: "length s = validLen"
    and bad: "Atoi s = Inl e" by simp_all
  from handleConnection_returns [OF rd handleLine_format [OF ok len bad]]
  show "\<not> isFatal (exit out)"
    and "written out = ''ERR Malformed Request: expected number'' @ [newline]"
    by (simp_all add: out_def)
next
  fix num assume h: "(err = None \<or> err = Some EOF) \<and> length s = validLen \<and> Atoi s = Inr num
            \<and> num < minValue"
  then have ok: "err = None \<or> err = Some EOF" and len: "length s = validLen"
    and val: "Atoi s = Inr num" and low: "num < minValue" by simp_all
  from handleConnection_returns [OF rd handleLine_range [OF ok len val low]]
  show "\<not> isFatal (exit out)"
    and "written out = ''ERR Malformed Request: expected number greater than 1000000''
                @ [newline]"
    by (simp_all add: out_def)
next
  assume fatal: "isFatal (exit out)"
  show "(\<exists>msg. err = Some (OtherError msg))
            \<or> (\<exists>num e. length s = validLen \<and> Atoi s = Inr num \<and> minValue \<le> num
                 \<and> num |\<notin>| seen c \<and> appendErr = Some e)"
  proof -
    have "isFatal (exit (handleLine s err appendErr c))"
    proof (rule ccontr)
      assume "\<not> isFatal (exit (handleLine s err appendErr c))"
      then have "exit (handleLine s err appendErr c) = Returned"
        by (simp add: handleLine_exit)
      then have "out = deferredClose (handleLine s err appendErr c)"
        by (simp add: out_def handleConnection_read [OF rd])
      then have "\<not> isFatal (exit out)"
        using \<open>exit (handleLine s err appendErr c) = Returned\<close>
        by (simp add: deferredClose_def split: list.split)
      with fatal show False by simp
    qed
    then show ?thesis by (simp add: handleLine_fatal_iff)
  qed
qed

theorem faults_fatal_client_errors_local_witness:
  "exit (handleConnection \<lparr>incoming = ''1234567890'', ending = ReadFails ''connection reset''\<rparr>
          None ((NewCounter connLimit)\<lparr>Sem := [1]\<rparr>))
     = Fatal ''Error reading: connection reset''
   \<and> exit (handleConnection \<lparr>incoming = ''1234567890'', ending = PeerClosed\<rparr>
          (Some (OtherError ''disk full'')) ((NewCounter connLimit)\<lparr>Sem := [1]\<rparr>))
     = Fatal (''could not log unique value: disk full'' @ [newline])
   \<and> \<not> isFatal (exit (handleConnection \<lparr>incoming = ''123'' @ [newline], ending = StaysOpen\<rparr>
          None ((NewCounter connLimit)\<lparr>Sem := [1]\<rparr>)))
   \<and> \<not> isFatal (exit (handleConnection \<lparr>incoming = ''12a4567890'', ending = PeerClosed\<rparr>
          None ((NewCounter connLimit)\<lparr>Sem := [1]\<rparr>)))
   \<and> \<not> isFatal (exit (handleConnection \<lparr>incoming = ''0000000001'', ending = PeerClosed\<rparr>
          None ((NewCounter connLimit)\<lparr>Sem := [1]\<rparr>)))"
proof -
  let ?c = "(NewCounter connLimit)\<lparr>Sem := [1]\<rparr>"
  have rd1: "ReadString newline \<lparr>incoming = ''1234567890'', ending = ReadFails ''connection reset''\<rparr>
      = Some (''1234567890'', Some (OtherError ''connection reset''))"
    by (simp add: ReadString_def newline_def)
  have rd2: "ReadString newline \<lparr>incoming = ''1234567890'', ending = PeerClosed\<rparr>
      = Some (''1234567890'', Some EOF)"
    by (simp add: ReadString_def newline_def)
  have rd3: "ReadString newline \<lparr>incoming = ''123'' @ [newline], ending = StaysOpen\<rparr>
      = Some (''123'' @ [newline], None)"
    by (simp add: ReadString_def newline_def)
  have rd4: "ReadString newline \<lparr>incoming = ''12a4567890'', ending = PeerClosed\<rparr>
      = Some (''12a4567890'', Some EOF)"
    by (simp add: ReadString_def newline_def)
  have rd5: "ReadString newline \<lparr>incoming = ''0000000001'', ending = PeerClosed\<rparr>
      = Some (''0000000001'', Some EOF)"
    by (simp add: ReadString_def newline_def)
  have v2: "Atoi ''1234567890'' = Inr 1234567890"
    and v4: "Atoi ''12a4567890'' = Inl ErrSyntax"
    and v5: "Atoi ''0000000001'' = Inr 1"
    by (simp_all add: Atoi_def ParseUint_def isDigit_def digitVal_def maxUint64_def maxInt64_def)
  have p1: "exit (handleConnection \<lparr>incoming = ''1234567890'', ending = ReadFails ''connection reset''\<rparr>
          None ?c) = Fatal ''Error reading: connection reset''"
    using faults_fatal_client_errors_local [OF rd1, of None ?c] by simp
  have p2: "exit (handleConnection \<lparr>incoming = ''1234567890'', ending = PeerClosed\<rparr>
          (Some (OtherError ''disk full'')) ?c)
     = Fatal (''could not log unique value: disk full'' @ [newline])"
    using faults_fatal_client_errors_local [OF rd2, of "Some (OtherError ''disk full'')" ?c] v2
    by (simp add: validLen_def minValue_def NewCounter_def)
  have p3: "\<not> isFatal (exit (handleConnection \<lparr>incoming = ''123'' @ [newline], ending = StaysOpen\<rparr>
          None ?c))"
    using faults_fatal_client_errors_local [OF rd3, of None ?c]
    by (simp add: validLen_def)
  have p4: "\<not> isFatal (exit (handleConnection \<lparr>incoming = ''12a4567890'', ending = PeerClosed\<rparr>
          None ?c))"
    using faults_fatal_client_errors_local [OF rd4, of None ?c] v4
    by (simp add: validLen_def)
  have p5: "\<not> isFatal (exit (handleConnection \<lparr>incoming = ''0000000001'', ending = PeerClosed\<rparr>
          None ?c))"
    using faults_fatal_client_errors_local [OF rd5, of None ?c] v5
    by (simp add: validLen_def minValue_def)
  from p1 p2 p3 p4 p5 show ?thesis by simp
qed

text \<open>
  C8. Whenever the line that was read is 10 bytes long and \<^verbatim>\<open>strconv.Atoi\<close> rejects
  it, the handler answers with the single line
  \<^verbatim>\<open>ERR Malformed Request: expected number\<close> and ends; neither the totals nor the dedup
  set nor the log change.
\<close>

theorem unparsable_rejected:
  assumes "ReadString newline conn = Some (s, err)"
    and "err = None \<or> err = Some EOF"
    and "length s = validLen"
    and "Atoi s = Inl e"
  shows "written (handleConnection conn appendErr c) =
           ''ERR Malformed Request: expected number'' @ [newline]
       \<and> totalValid (counter (handleConnection conn appendErr c)) = totalValid c
       \<and> intervalValid (counter (handleConnection conn appendErr c)) = intervalValid c
       \<and> seen (counter (handleConnection conn appendErr c)) = seen c
       \<and> uniqLog (counter (handleConnection conn appendErr c)) = uniqLog c
       \<and> exit (handleConnection conn appendErr c) = (if Sem c = [] then Blocked else Returned)"
  using handleConnection_returns [OF assms(1) handleLine_format [OF assms(2,3,4)]]
  by simp

theorem unparsable_rejected_witness:
  "ReadString newline \<lparr>incoming = ''12a4567890'', ending = PeerClosed\<rparr>
     = Some (''12a4567890'', Some EOF)
   \<and> length ''12a4567890'' = validLen
   \<and> Atoi ''12a4567890'' = Inl ErrSyntax
   \<and> written (handleConnection \<lparr>incoming = ''12a4567890'', ending = PeerClosed\<rparr> None
               ((NewCounter connLimit)\<lparr>Sem := [1]\<rparr>))
       = ''ERR Malformed Request: expected number'' @ [newline]
   \<and> exit (handleConnection \<lparr>incoming = ''12a4567890'', ending = PeerClosed\<rparr> None
               ((NewCounter connLimit)\<lparr>Sem := [1]\<rparr>)) = Returned"
  using unparsable_rejected [of "\<lparr>incoming = ''12a4567890'', ending = PeerClosed\<rparr>"
      "''12a4567890''" "Some EOF" ErrSyntax None "(NewCounter connLimit)\<lparr>Sem := [1]\<rparr>"]
  by (simp add: read_defs atoi_defs validLen_def NewCounter_def)

text \<open>
  C9, amended. Ten decimal digits with no newline after them, the stream then closed by
  the peer, are accepted when the number they denote is at least 1000000: the read gives
  them with \<^verbatim>\<open>io.EOF\<close>, the length check passes, \<^verbatim>\<open>strconv.Atoi\<close> gives their
  value, both totals go up by one and the value is written back in decimal (without the
  leading zeros of the request) and a newline.
\<close>

theorem unterminated_digits_accepted:
  assumes "ending conn = PeerClosed"
    and "length (incoming conn) = validLen"
    and "list_all isDigit (incoming conn)"
    and "minValue \<le> int (decimalValue (incoming conn))"
  shows "ReadString newline conn = Some (incoming conn, Some EOF)
       \<and> Atoi (incoming conn) = Inr (int (decimalValue (incoming conn)))
       \<and> written (handleConnection conn appendErr c)
           = formatDigits (decimalValue (incoming conn)) @ [newline]
       \<and> totalValid (counter (handleConnection conn appendErr c)) = totalValid c + 1
       \<and> intervalValid (counter (handleConnection conn appendErr c)) = intervalValid c + 1"
proof -
  let ?s = "incoming conn" and ?v = "int (decimalValue (incoming conn))"
  have rd: "ReadString newline conn = Some (?s, Some EOF)"
    using assms(1,3) by (simp add: ReadString_closed digits_no_newline)
  have "?s \<noteq> []" "length ?s \<le> 18" using assms(2) by (auto simp: validLen_def)
  with assms(3) have val: "Atoi ?s = Inr ?v" by (simp add: Atoi_digits)
  have ok: "Some EOF = None \<or> Some EOF = Some EOF" by simp
  have echo: "formatInt ?v = formatDigits (decimalValue ?s)" by (rule formatInt_nat)
  have "written (handleConnection conn appendErr c) = formatInt ?v @ [newline]
       \<and> totalValid (counter (handleConnection conn appendErr c)) = totalValid c + 1
       \<and> intervalValid (counter (handleConnection conn appendErr c)) = intervalValid c + 1"
  proof (cases "?v |\<in>| seen c")
    case True
    from handleConnection_returns [OF rd handleLine_seen [OF ok assms(2) val assms(4) True]]
    show ?thesis by (simp add: Inc_def)
  next
    case False
    show ?thesis
    proof (cases appendErr)
      case None
      from handleConnection_returns [OF rd handleLine_new [OF ok assms(2) val assms(4) False]]
      show ?thesis using None by (simp add: Inc_def)
    next
      case (Some e)
      from handleConnection_fatal [OF rd handleLine_append_fails [OF ok assms(2) val assms(4) False]]
      show ?thesis using Some by (simp add: Inc_def)
    qed
  qed
  with rd val echo show ?thesis by simp
qed

theorem unterminated_digits_accepted_witness:
  "ending \<lparr>incoming = ''0001234567'', ending = PeerClosed\<rparr> = PeerClosed
   \<and> length ''0001234567'' = validLen
   \<and> list_all isDigit ''0001234567''
   \<and> minValue \<le> int (decimalValue ''0001234567'')
   \<and> written (handleConnection \<lparr>incoming = ''0001234567'', ending = PeerClosed\<rparr> None
        ((NewCounter connLimit)\<lparr>Sem := [1]\<rparr>)) = ''1234567'' @ [newline]
   \<and> totalValid (counter (handleConnection \<lparr>incoming = ''0001234567'', ending = PeerClosed\<rparr> None
        ((NewCounter connLimit)\<lparr>Sem := [1]\<rparr>))) = 1"
  using unterminated_digits_accepted [of "\<lparr>incoming = ''0001234567'', ending = PeerClosed\<rparr>"
      None "(NewCounter connLimit)\<lparr>Sem := [1]\<rparr>"]
  by (simp add: validLen_def isDigit_def digitVal_def minValue_def formatDigits.simps digitTable_def
      NewCounter_def)

text \<open>
  C9 as stated fails for ten digits below the minimum: \<^verbatim>\<open>0000000001\<close> is answered with
  the below-minimum line and is not counted.
\<close>

theorem unterminated_digits_counterexample:
  "written (handleConnection \<lparr>incoming = ''0000000001'', ending = PeerClosed\<rparr> None
              ((NewCounter connLimit)\<lparr>Sem := [1]\<rparr>))
     = ''ERR Malformed Request: expected number greater than 1000000'' @ [newline]
   \<and> totalValid (counter (handleConnection \<lparr>incoming = ''0000000001'', ending = PeerClosed\<rparr> None
              ((NewCounter connLimit)\<lparr>Sem := [1]\<rparr>))) = 0"
proof -
  have rd: "ReadString newline \<lparr>incoming = ''0000000001'', ending = PeerClosed\<rparr>
              = Some (''0000000001'', Some EOF)"
    by (simp add: ReadString_def newline_def)
  have len: "length ''0000000001'' = validLen"
    by (simp add: validLen_def)
  have val: "Atoi ''0000000001'' = Inr 1"
    by (simp add: Atoi_def ParseUint_def isDigit_def digitVal_def maxUint64_def maxInt64_def)
  have low: "(1::int) < minValue" by (simp add: minValue_def)
  have ok: "Some EOF = None \<or> Some EOF = Some EOF" by simp
  from handleConnection_returns [OF rd handleLine_range [OF ok len val low]]
  show ?thesis by (simp add: NewCounter_def)
qed

text \<open>
  C10. A connection that reaches a clean end of stream having sent nothing is neither
  fatal nor closed in silence: the handler, holding its token, answers with the
  length-mismatch error for length 0, closes the connection, gives the token back and
  returns, the counters untouched.
\<close>

theorem empty_stream_answered:
  assumes "Sem c = tok # rest"
  shows "handleConnection \<lparr>incoming = [], ending = PeerClosed\<rparr> appendErr c =
           \<lparr>exit = Returned,
            written = ''ERR Malformed Request: expected length 10, got 0.'' @ [newline],
            connClosed = True,
            counter = c\<lparr>Sem := rest\<rparr>\<rparr>"
proof -
  have rd: "ReadString newline \<lparr>incoming = [], ending = PeerClosed\<rparr> = Some ([], Some EOF)"
    by (simp add: ReadString_def)
  have "handleLine [] (Some EOF) appendErr c =
          \<lparr>exit = Returned,
           written = ''ERR Malformed Request: expected length 10, got 0.'' @ [newline],
           connClosed = False, counter = c\<rparr>"
    using handleLine_length [of "Some EOF" "[]" appendErr c]
    by (simp add: validLen_def formatDigits.simps digitTable_def)
  then show ?thesis
    using assms by (simp add: handleConnection_read [OF rd] deferredClose_def)
qed

theorem empty_stream_answered_witness:
  "handleConnection \<lparr>incoming = [], ending = PeerClosed\<rparr> None
     ((NewCounter connLimit)\<lparr>Sem := [1, 1]\<rparr>) =
   \<lparr>exit = Returned,
    written = ''ERR Malformed Request: expected length 10, got 0.'' @ [newline],
    connClosed = True,
    counter = (NewCounter connLimit)\<lparr>Sem := [1]\<rparr>\<rparr>"
  using empty_stream_answered [of "(NewCounter connLimit)\<lparr>Sem := [1, 1]\<rparr>" 1 "[1]" None]
  by (simp add: NewCounter_def)

end
